theory Spec2Isabelle
  imports Main
begin

unbundle bit_operations_syntax

section \<open>Python strings and exceptions\<close>

text \<open>
  A Python \<^verbatim>\<open>str\<close> is a sequence of Unicode code points, so it is a list of naturals
  here (an Isabelle \<open>char\<close> is only a byte). \<open>of_ascii\<close> turns the ASCII literals of the
  script into such strings.
\<close>

type_synonym py_str = "nat list"

definition of_ascii :: "string \<Rightarrow> py_str" where
  "of_ascii s = map of_char s"

text \<open>
  An exception is known to the script by its class and by \<^verbatim>\<open>str(e)\<close>. Every failure of
  the model is an instance of \<^verbatim>\<open>Exception\<close>, which is what both \<^verbatim>\<open>except\<close> clauses of the
  script catch.
\<close>

datatype py_exc = PyExc (exc_class: py_str) (str_of: py_str)

section \<open>The values a transcript entry is made of\<close>

text \<open>
  A finite float is kept as the sign, the digits and the position of the decimal point of
  its shortest decimal form that reads back as the same float: the value of
  \<open>Finite neg m decpt\<close> is \<open>0.m \<times> 10 ^ decpt\<close>, negated when \<open>neg\<close> holds. This is the form
  \<^verbatim>\<open>float.__repr__\<close> prints from.
\<close>

datatype py_float = Finite bool nat int | Infinite bool | NaN

text \<open>
  \<open>PyDict\<close> lists the items of a dict in iteration order, and \<open>PyObject\<close> is an object
  of any other class, named by its class. A value is a finite tree: no list or dict holds
  itself.
\<close>

datatype py_value =
    PyNone
  | PyBool bool
  | PyInt int
  | PyFloat py_float
  | PyStr py_str
  | PyList "py_value list"
  | PyTuple "py_value list"
  | PyDict "(py_value \<times> py_value) list"
  | PyObject py_str

section \<open>\<^verbatim>\<open>json.dumps\<close> with its default arguments\<close>

text \<open>
  The script calls \<^verbatim>\<open>json.dumps(entry)\<close> of the standard library with no option:
  \<^verbatim>\<open>ensure_ascii=True\<close>, \<^verbatim>\<open>allow_nan=True\<close>, \<^verbatim>\<open>indent=None\<close>, separators
  \<^verbatim>\<open>', '\<close> and \<^verbatim>\<open>': '\<close>, \<^verbatim>\<open>skipkeys=False\<close>, \<^verbatim>\<open>sort_keys=False\<close>. The definitions
  below follow \<^verbatim>\<open>json/encoder.py\<close> as CPython 3.11 runs it. The limit of the
  interpreter on recursion is left out: a value is taken to nest fewer than a thousand
  lists, tuples and dicts, as entries do.
\<close>

text \<open>\<^verbatim>\<open>format(n, 'x')\<close> and \<^verbatim>\<open>'{0:04x}'.format(n)\<close>: lower-case hexadecimal, padded with
  zeros to four digits at least.\<close>

definition hex_digit :: "nat \<Rightarrow> nat" where
  "hex_digit d = (if d < 10 then 0x30 + d else 0x61 + (d - 10))"

fun hex_str :: "nat \<Rightarrow> py_str" where
  "hex_str n = (if n < 16 then [hex_digit n] else hex_str (n div 16) @ [hex_digit (n mod 16)])"

declare hex_str.simps [simp del]

definition format_04x :: "nat \<Rightarrow> py_str" where
  "format_04x n = replicate (4 - length (hex_str n)) 0x30 @ hex_str n"

text \<open>The decimal digits of a natural number.\<close>

fun dec_str :: "nat \<Rightarrow> py_str" where
  "dec_str n = (if n < 10 then [0x30 + n] else dec_str (n div 10) @ [0x30 + n mod 10])"

declare dec_str.simps [simp del]

definition ValueError :: "py_str \<Rightarrow> py_exc" where
  "ValueError msg = PyExc (of_ascii ''ValueError'') msg"

text \<open>
  \<^verbatim>\<open>int.__repr__\<close>: the decimal digits after the sign, or the \<^verbatim>\<open>ValueError\<close> of an integer
  of more than 4300 digits (\<^verbatim>\<open>sys.get_int_max_str_digits()\<close>).
\<close>

definition int_repr :: "int \<Rightarrow> py_exc + py_str" where
  "int_repr i =
     (let ds = dec_str (nat \<bar>i\<bar>) in
        if length ds > 4300 then
          Inl (ValueError
            (of_ascii ''Exceeds the limit (4300 digits) for integer string conversion; '' @
             of_ascii ''use sys.set_int_max_str_digits() to increase the limit''))
        else Inr ((if i < 0 then [0x2D] else []) @ ds))"

text \<open>
  \<^verbatim>\<open>float.__repr__\<close> of a finite float: exponent notation when the decimal point lies
  at or below \<open>-4\<close> or above \<open>16\<close>, with a sign and two exponent digits at least; otherwise
  positional notation, with \<^verbatim>\<open>.0\<close> added to a whole number.
\<close>

definition float_repr :: "bool \<Rightarrow> nat \<Rightarrow> int \<Rightarrow> py_str" where
  "float_repr neg m decpt =
     (let ds = dec_str m;
          n = int (length ds);
          sign = (if neg then [0x2D] else [])
      in sign @
        (if decpt \<le> - 4 \<or> decpt > 16 then
           (let e = decpt - 1;
                es = dec_str (nat \<bar>e\<bar>)
            in take 1 ds @ (if n > 1 then [0x2E] @ drop 1 ds else [])
               @ [0x65] @ (if e < 0 then [0x2D] else [0x2B])
               @ replicate (2 - length es) 0x30 @ es)
         else if decpt \<le> 0 then
           of_ascii ''0.'' @ replicate (nat (- decpt)) 0x30 @ ds
         else if decpt \<ge> n then
           ds @ replicate (nat (decpt - n)) 0x30 @ of_ascii ''.0''
         else
           take (nat decpt) ds @ [0x2E] @ drop (nat decpt) ds))"

text \<open>\<^verbatim>\<open>floatstr\<close> of the encoder, with \<^verbatim>\<open>allow_nan\<close> true.\<close>

fun floatstr :: "py_float \<Rightarrow> py_str" where
  "floatstr NaN = of_ascii ''NaN''"
| "floatstr (Infinite False) = of_ascii ''Infinity''"
| "floatstr (Infinite True) = of_ascii ''-Infinity''"
| "floatstr (Finite neg m decpt) = float_repr neg m decpt"

text \<open>
  \<^verbatim>\<open>ESCAPE_DCT\<close>: the short escapes, and \<^verbatim>\<open>\u00XX\<close> for the other control characters.
\<close>

definition ESCAPE_DCT :: "nat \<Rightarrow> py_str option" where
  "ESCAPE_DCT c =
     (if c = 0x5C then Some [0x5C, 0x5C]
      else if c = 0x22 then Some [0x5C, 0x22]
      else if c = 0x08 then Some [0x5C, 0x62]
      else if c = 0x0C then Some [0x5C, 0x66]
      else if c = 0x0A then Some [0x5C, 0x6E]
      else if c = 0x0D then Some [0x5C, 0x72]
      else if c = 0x09 then Some [0x5C, 0x74]
      else if c < 0x20 then Some ([0x5C, 0x75] @ format_04x c)
      else None)"

text \<open>
  \<^verbatim>\<open>ESCAPE_ASCII\<close> matches a backslash, a double quote and every character outside
  the range from space to tilde.
\<close>

definition ESCAPE_ASCII :: "nat \<Rightarrow> bool" where
  "ESCAPE_ASCII c = (c = 0x5C \<or> c = 0x22 \<or> \<not> (0x20 \<le> c \<and> c \<le> 0x7E))"

text \<open>The function \<^verbatim>\<open>replace\<close> of \<^verbatim>\<open>py_encode_basestring_ascii\<close>.\<close>

definition replace_match :: "nat \<Rightarrow> py_str" where
  "replace_match c =
     (case ESCAPE_DCT c of
        Some r \<Rightarrow> r
      | None \<Rightarrow>
          (if c < 0x10000 then [0x5C, 0x75] @ format_04x c
           else
             (let n = c - 0x10000;
                  s1 = 0xd800 OR ((drop_bit 10 n) AND 0x3ff);
                  s2 = 0xdc00 OR (n AND 0x3ff)
              in [0x5C, 0x75] @ format_04x s1 @ [0x5C, 0x75] @ format_04x s2)))"

definition py_encode_basestring_ascii :: "py_str \<Rightarrow> py_str" where
  "py_encode_basestring_ascii s =
     [0x22] @ concat (map (\<lambda>c. if ESCAPE_ASCII c then replace_match c else [c]) s) @ [0x22]"

text \<open>The name of the class of a value, for the messages of \<^verbatim>\<open>TypeError\<close>.\<close>

fun class_name :: "py_value \<Rightarrow> py_str" where
  "class_name PyNone = of_ascii ''NoneType''"
| "class_name (PyBool _) = of_ascii ''bool''"
| "class_name (PyInt _) = of_ascii ''int''"
| "class_name (PyFloat _) = of_ascii ''float''"
| "class_name (PyStr _) = of_ascii ''str''"
| "class_name (PyList _) = of_ascii ''list''"
| "class_name (PyTuple _) = of_ascii ''tuple''"
| "class_name (PyDict _) = of_ascii ''dict''"
| "class_name (PyObject c) = c"

definition TypeError :: "py_str \<Rightarrow> py_exc" where
  "TypeError msg = PyExc (of_ascii ''TypeError'') msg"

text \<open>
  The key of a dict item as a string, or what is raised for it: the \<^verbatim>\<open>ValueError\<close> of an
  integer of too many digits, the \<^verbatim>\<open>TypeError\<close> of a key of another class (a tuple or an
  object; a list or a dict is no key in Python).
\<close>

fun key_str :: "py_value \<Rightarrow> py_exc + py_str" where
  "key_str (PyStr s) = Inr s"
| "key_str (PyFloat f) = Inr (floatstr f)"
| "key_str (PyBool True) = Inr (of_ascii ''true'')"
| "key_str (PyBool False) = Inr (of_ascii ''false'')"
| "key_str PyNone = Inr (of_ascii ''null'')"
| "key_str (PyInt i) = int_repr i"
| "key_str k =
     Inl (TypeError (of_ascii ''keys must be str, int, float, bool or None, not '' @ class_name k))"

text \<open>\<^verbatim>\<open>item_separator.join(chunks)\<close>.\<close>

fun join_str :: "py_str \<Rightarrow> py_str list \<Rightarrow> py_str" where
  "join_str sep [] = []"
| "join_str sep [s] = s"
| "join_str sep (s # t # ss) = s @ sep @ join_str sep (t # ss)"

text \<open>
  \<^verbatim>\<open>_iterencode\<close>, \<^verbatim>\<open>_iterencode_list\<close> and \<^verbatim>\<open>_iterencode_dict\<close>. The first item
  that cannot be encoded raises, and nothing is returned then.
\<close>

fun iterencode :: "py_value \<Rightarrow> py_exc + py_str"
  and iterencode_list :: "py_value list \<Rightarrow> py_exc + py_str list"
  and iterencode_dict :: "(py_value \<times> py_value) list \<Rightarrow> py_exc + py_str list"
where
  "iterencode (PyStr s) = Inr (py_encode_basestring_ascii s)"
| "iterencode PyNone = Inr (of_ascii ''null'')"
| "iterencode (PyBool True) = Inr (of_ascii ''true'')"
| "iterencode (PyBool False) = Inr (of_ascii ''false'')"
| "iterencode (PyInt i) = int_repr i"
| "iterencode (PyFloat f) = Inr (floatstr f)"
| "iterencode (PyList xs) =
     (case iterencode_list xs of
        Inl e \<Rightarrow> Inl e
      | Inr chunks \<Rightarrow> Inr ([0x5B] @ join_str (of_ascii '', '') chunks @ [0x5D]))"
| "iterencode (PyTuple xs) =
     (case iterencode_list xs of
        Inl e \<Rightarrow> Inl e
      | Inr chunks \<Rightarrow> Inr ([0x5B] @ join_str (of_ascii '', '') chunks @ [0x5D]))"
| "iterencode (PyDict kvs) =
     (case iterencode_dict kvs of
        Inl e \<Rightarrow> Inl e
      | Inr chunks \<Rightarrow> Inr ([0x7B] @ join_str (of_ascii '', '') chunks @ [0x7D]))"
| "iterencode (PyObject c) =
     Inl (TypeError (of_ascii ''Object of type '' @ c @ of_ascii '' is not JSON serializable''))"
| "iterencode_list [] = Inr []"
| "iterencode_list (x # xs) =
     (case iterencode x of
        Inl e \<Rightarrow> Inl e
      | Inr s \<Rightarrow>
          (case iterencode_list xs of
             Inl e \<Rightarrow> Inl e
           | Inr chunks \<Rightarrow> Inr (s # chunks)))"
| "iterencode_dict [] = Inr []"
| "iterencode_dict ((k, v) # kvs) =
     (case key_str k of
        Inl e \<Rightarrow> Inl e
      | Inr ks \<Rightarrow>
          (case iterencode v of
             Inl e \<Rightarrow> Inl e
           | Inr s \<Rightarrow>
               (case iterencode_dict kvs of
                  Inl e \<Rightarrow> Inl e
                | Inr chunks \<Rightarrow>
                    Inr ((py_encode_basestring_ascii ks @ of_ascii '': '' @ s) # chunks))))"

definition json_dumps :: "py_value \<Rightarrow> py_exc + py_str" where
  "json_dumps obj = iterencode obj"

section \<open>The script\<close>

text \<open>
  \<^verbatim>\<open>YouTubeTranscriptApi.get_transcript(video_id, languages=...)\<close> belongs to a library
  outside the repository, so it is a parameter: it answers a video identifier and a list
  of language codes with a transcript (a list of entries) or raises. Within one run the
  script calls it at most twice, with different language lists, so a function of the
  arguments covers every behaviour of the remote service during a run.
\<close>

type_synonym transcript = "py_value list"

type_synonym provider = "py_str \<Rightarrow> py_str list \<Rightarrow> py_exc + transcript"

text \<open>
  What a run does to the outside: the requests it sends to the provider, in order, and
  the text it writes to standard output and to standard error.
\<close>

record process =
  requests :: "(py_str \<times> py_str list) list"
  stdout :: py_str
  stderr :: py_str

definition start :: process where
  "start = \<lparr>requests = [], stdout = [], stderr = []\<rparr>"

definition api_get_transcript ::
  "provider \<Rightarrow> py_str \<Rightarrow> py_str list \<Rightarrow> process \<Rightarrow> (py_exc + transcript) \<times> process" where
  "api_get_transcript api video_id languages p =
     (api video_id languages, p\<lparr>requests := requests p @ [(video_id, languages)]\<rparr>)"

text \<open>\<^verbatim>\<open>print(s)\<close> and \<^verbatim>\<open>print(s, file=sys.stderr)\<close> write the string and a newline.\<close>

definition print_stdout :: "py_str \<Rightarrow> process \<Rightarrow> process" where
  "print_stdout s p = p\<lparr>stdout := stdout p @ s @ [0x0A]\<rparr>"

definition print_stderr :: "py_str \<Rightarrow> process \<Rightarrow> process" where
  "print_stderr s p = p\<lparr>stderr := stderr p @ s @ [0x0A]\<rparr>"

text \<open>The two language lists of lines 8 and 13.\<close>

definition languages_en :: "py_str list" where
  "languages_en = [of_ascii ''en'']"

definition languages_variants :: "py_str list" where
  "languages_variants = [of_ascii ''en-US'', of_ascii ''en-GB'']"

text \<open>Lines 5 to 17: \<^verbatim>\<open>get_transcript\<close>.\<close>

definition get_transcript ::
  "provider \<Rightarrow> py_str \<Rightarrow> process \<Rightarrow> (py_exc + transcript) \<times> process" where
  "get_transcript api video_id p =
     (case api_get_transcript api video_id languages_en p of
        (Inr transcript, p1) \<Rightarrow> (Inr transcript, p1)
      | (Inl e, p1) \<Rightarrow>
          (case api_get_transcript api video_id languages_variants p1 of
             (Inr transcript, p2) \<Rightarrow> (Inr transcript, p2)
           | (Inl e2, p2) \<Rightarrow> (Inl e, p2)))"

text \<open>Lines 28 and 29: the loop over the entries, left at the first exception.\<close>

fun print_entries :: "transcript \<Rightarrow> process \<Rightarrow> (py_exc + unit) \<times> process" where
  "print_entries [] p = (Inr (), p)"
| "print_entries (entry # rest) p =
     (case json_dumps entry of
        Inl e \<Rightarrow> (Inl e, p)
      | Inr s \<Rightarrow> print_entries rest (print_stdout s p))"

text \<open>
  Lines 19 to 32: the body of the script, from \<^verbatim>\<open>sys.argv\<close> (the program name first) to
  the final process and the exit status. A script that reaches its end exits with 0.
  These are the runs in which the provider returns or raises an instance of \<^verbatim>\<open>Exception\<close>
  and the standard streams take what is printed; \<open>main_base\<close> below gives the end of every
  run.
\<close>

definition usage :: py_str where
  "usage = of_ascii ''Usage: python get_transcript.py <video_id>''"

definition main :: "provider \<Rightarrow> py_str list \<Rightarrow> process \<times> nat" where
  "main api argv =
     (if length argv \<noteq> 2 then (print_stderr usage start, 1)
      else
        (let video_id = argv ! 1 in
           (case get_transcript api video_id start of
              (Inl e, p1) \<Rightarrow> (print_stderr (of_ascii ''Error: '' @ str_of e) p1, 1)
            | (Inr transcript, p1) \<Rightarrow>
                (case print_entries transcript p1 of
                   (Inl e, p2) \<Rightarrow> (print_stderr (of_ascii ''Error: '' @ str_of e) p2, 1)
                 | (Inr u, p2) \<Rightarrow> (p2, 0)))))"

section \<open>Exceptions the script does not catch, and streams that fail\<close>

text \<open>
  The three \<^verbatim>\<open>except\<close> clauses (lines 10, 15 and 30) name \<^verbatim>\<open>Exception\<close>. \<^verbatim>\<open>SystemExit\<close>
  and \<^verbatim>\<open>KeyboardInterrupt\<close> are instances of \<^verbatim>\<open>BaseException\<close> outside it: raised during a
  call of the provider, where a run spends its time, they pass all three clauses and reach
  the interpreter.
\<close>

datatype py_base_exc = SystemExit py_value | KeyboardInterrupt

type_synonym provider_base = "py_str \<Rightarrow> py_str list \<Rightarrow> py_base_exc + (py_exc + transcript)"

text \<open>
  A run ends with an exit status or is killed by a signal: CPython answers an uncaught
  \<^verbatim>\<open>KeyboardInterrupt\<close> by sending itself \<^verbatim>\<open>SIGINT\<close>, signal 2, which a shell shows as
  status 130.
\<close>

datatype ending = Exited nat | Killed nat

text \<open>
  The standard streams of a run: whether the print number \<open>k\<close> on standard output raises
  (an \<^verbatim>\<open>OSError\<close>, when the pipe is closed or the disk is full), and whether flushing the
  streams fails when the interpreter exits. A print on standard error that raises is no
  case of its own: it is not caught, and the interpreter ends an uncaught instance of
  \<^verbatim>\<open>Exception\<close> with status 1, the status of \<^verbatim>\<open>sys.exit(1)\<close>.
\<close>

record streams =
  print_raises :: "nat \<Rightarrow> py_exc option"
  flush_fails :: bool

text \<open>The interpreter exits with status 120 when the last flush fails.\<close>

definition at_exit :: "streams \<Rightarrow> nat \<Rightarrow> ending" where
  "at_exit io status = Exited (if flush_fails io then 120 else status)"

text \<open>
  The status of an uncaught \<^verbatim>\<open>SystemExit\<close>, from its argument: 0 for \<^verbatim>\<open>None\<close>, the low eight
  bits of an integer that fits a C \<^verbatim>\<open>long\<close> of 64 bits and 255 for one that does not, and 1
  for any other object, which is printed on standard error.
\<close>

fun system_exit_status :: "py_value \<Rightarrow> nat" where
  "system_exit_status PyNone = 0"
| "system_exit_status (PyBool b) = (if b then 1 else 0)"
| "system_exit_status (PyInt i) =
     (if - (2 ^ 63) \<le> i \<and> i < 2 ^ 63 then nat (i mod 256) else 255)"
| "system_exit_status code = 1"

fun uncaught :: "streams \<Rightarrow> py_base_exc \<Rightarrow> ending" where
  "uncaught io (SystemExit code) = at_exit io (system_exit_status code)"
| "uncaught io KeyboardInterrupt = Killed 2"

text \<open>
  Lines 5 to 17 again, for a provider that may raise outside \<^verbatim>\<open>Exception\<close>: neither
  \<^verbatim>\<open>except\<close> clause catches such an exception, at the first call or at the second.
\<close>

definition get_transcript_base ::
  "provider_base \<Rightarrow> py_str \<Rightarrow> py_base_exc + (py_exc + transcript)" where
  "get_transcript_base api video_id =
     (case api video_id languages_en of
        Inl b \<Rightarrow> Inl b
      | Inr (Inr transcript) \<Rightarrow> Inr (Inr transcript)
      | Inr (Inl e) \<Rightarrow>
          (case api video_id languages_variants of
             Inl b \<Rightarrow> Inl b
           | Inr (Inr transcript) \<Rightarrow> Inr (Inr transcript)
           | Inr (Inl e2) \<Rightarrow> Inr (Inl e)))"

text \<open>
  Lines 28 and 29 again, with \<^verbatim>\<open>json.dumps\<close> as a parameter and a \<^verbatim>\<open>print\<close> that may
  raise; \<open>k\<close> counts the prints done.
\<close>

fun print_entries_base ::
  "(py_value \<Rightarrow> py_exc + py_str) \<Rightarrow> (nat \<Rightarrow> py_exc option) \<Rightarrow> nat \<Rightarrow> transcript \<Rightarrow>
   py_exc + unit"
where
  "print_entries_base dumps raises k [] = Inr ()"
| "print_entries_base dumps raises k (entry # rest) =
     (case dumps entry of
        Inl e \<Rightarrow> Inl e
      | Inr s \<Rightarrow>
          (case raises k of
             Some e \<Rightarrow> Inl e
           | None \<Rightarrow> print_entries_base dumps raises (Suc k) rest))"

text \<open>
  Lines 19 to 32 again: how the run ends. \<^verbatim>\<open>sys.exit(1)\<close> and the end of the script go
  through the last flush; an exception of the provider outside \<^verbatim>\<open>Exception\<close> is not caught
  by line 30.
\<close>

definition main_base ::
  "provider_base \<Rightarrow> (py_value \<Rightarrow> py_exc + py_str) \<Rightarrow> streams \<Rightarrow> py_str list \<Rightarrow> ending" where
  "main_base api dumps io argv =
     (if length argv \<noteq> 2 then at_exit io 1
      else
        (let video_id = argv ! 1 in
           (case get_transcript_base api video_id of
              Inl b \<Rightarrow> uncaught io b
            | Inr (Inl e) \<Rightarrow> at_exit io 1
            | Inr (Inr transcript) \<Rightarrow>
                (case print_entries_base dumps (print_raises io) 0 transcript of
                   Inl e \<Rightarrow> at_exit io 1
                 | Inr u \<Rightarrow> at_exit io 0))))"

text \<open>A provider that raises instances of \<^verbatim>\<open>Exception\<close> only.\<close>

definition provider_of :: "provider \<Rightarrow> provider_base" where
  "provider_of api video_id languages = Inr (api video_id languages)"

section \<open>Notions the properties are stated with\<close>

text \<open>The printable ASCII characters, from space to tilde, and the ASCII characters.\<close>

definition printable :: "nat \<Rightarrow> bool" where
  "printable c = (0x20 \<le> c \<and> c \<le> 0x7E)"




text \<open>The lines of a text, each ended by a newline (the last one may lack it).\<close>

fun lines_of :: "py_str \<Rightarrow> py_str list" where
  "lines_of [] = []"
| "lines_of (c # cs) =
     (if c = 0x0A then [] # lines_of cs
      else (case lines_of cs of [] \<Rightarrow> [[c]] | l # ls \<Rightarrow> (c # l) # ls))"

text \<open>The JSON texts of the entries that come before the first one \<^verbatim>\<open>json.dumps\<close> refuses.\<close>

fun serialized :: "transcript \<Rightarrow> py_str list" where
  "serialized [] = []"
| "serialized (entry # rest) =
     (case json_dumps entry of Inl e \<Rightarrow> [] | Inr s \<Rightarrow> s # serialized rest)"

text \<open>An entry that \<^verbatim>\<open>json.dumps\<close> accepts.\<close>

definition serializable :: "py_value \<Rightarrow> bool" where
  "serializable entry = (case json_dumps entry of Inl e \<Rightarrow> False | Inr s \<Rightarrow> True)"

text \<open>
  A member of a JSON object that stands for an item of a dict: the key of the item as a
  JSON string, a colon and a space, and the JSON text of the value of the item.
\<close>

definition object_member :: "py_value \<times> py_value \<Rightarrow> py_str \<Rightarrow> bool" where
  "object_member item chunk =
     (case key_str (fst item) of
        Inl e \<Rightarrow> False
      | Inr ks \<Rightarrow>
          (case json_dumps (snd item) of
             Inl e \<Rightarrow> False
           | Inr vs \<Rightarrow> chunk = py_encode_basestring_ascii ks @ of_ascii '': '' @ vs))"

section \<open>Example runs\<close>

definition prog :: py_str where
  "prog = of_ascii ''get_transcript.py''"

definition video :: py_str where
  "video = of_ascii ''dQw4w9WgXcQ''"

text \<open>Two entries as the provider builds them; the text of the first is \<^verbatim>\<open>H\<close>, e acute,
  \<^verbatim>\<open>llo\<close>.\<close>

definition entry_hello :: py_value where
  "entry_hello =
     PyDict [(PyStr (of_ascii ''text''), PyStr [0x48, 0xE9, 0x6C, 0x6C, 0x6F]),
             (PyStr (of_ascii ''start''), PyFloat (Finite False 0 1)),
             (PyStr (of_ascii ''duration''), PyFloat (Finite False 15 1))]"

definition entry_world :: py_value where
  "entry_world =
     PyDict [(PyStr (of_ascii ''text''), PyStr (of_ascii ''world'')),
             (PyStr (of_ascii ''start''), PyFloat (Finite False 15 1)),
             (PyStr (of_ascii ''duration''), PyFloat (Finite False 225 1))]"

definition no_en :: py_exc where
  "no_en = PyExc (of_ascii ''NoTranscriptFound'') (of_ascii ''no transcript for en'')"

definition no_variant :: py_exc where
  "no_variant = PyExc (of_ascii ''TranscriptsDisabled'') (of_ascii ''subtitles are disabled'')"

text \<open>A provider with an \<^verbatim>\<open>en\<close> transcript, one with a transcript in a variant only, one
  with none, and one whose \<^verbatim>\<open>en\<close> transcript is empty.\<close>

definition api_en :: provider where
  "api_en video_id languages =
     (if languages = languages_en then Inr [entry_hello, entry_world] else Inl no_variant)"

definition api_variant :: provider where
  "api_variant video_id languages =
     (if languages = languages_en then Inl no_en else Inr [entry_hello, entry_world])"

definition api_none :: provider where
  "api_none video_id languages =
     (if languages = languages_en then Inl no_en else Inl no_variant)"

definition api_empty :: provider where
  "api_empty video_id languages = Inr []"

text \<open>A provider with an empty transcript in a variant only.\<close>

definition api_empty_variant :: provider where
  "api_empty_variant video_id languages =
     (if languages = languages_en then Inl no_en else Inr [])"

text \<open>A provider whose second entry is an object of a class of its own, which
  \<^verbatim>\<open>json.dumps\<close> refuses.\<close>

definition entry_snippet :: py_value where
  "entry_snippet = PyObject (of_ascii ''Snippet'')"

definition api_snippet :: provider where
  "api_snippet video_id languages = Inr [entry_hello, entry_snippet, entry_world]"

text \<open>Streams that work, and a standard output that cannot be flushed at exit.\<close>

definition streams_ok :: streams where
  "streams_ok = \<lparr>print_raises = \<lambda>k. None, flush_fails = False\<rparr>"




section \<open>What \<^verbatim>\<open>json.dumps\<close> writes\<close>

lemma list_all_replicate: "P x \<Longrightarrow> list_all P (replicate n x)"
  by (simp add: list_all_iff)

lemma list_all_take: "list_all P xs \<Longrightarrow> list_all P (take n xs)"
  by (auto simp: list_all_iff dest: in_set_takeD)

lemma list_all_drop: "list_all P xs \<Longrightarrow> list_all P (drop n xs)"
  by (auto simp: list_all_iff dest: in_set_dropD)

lemma hex_digit_printable: "d < 16 \<Longrightarrow> printable (hex_digit d)"
  by (simp add: hex_digit_def printable_def)

lemma hex_str_printable: "list_all printable (hex_str n)"
proof (induction n rule: hex_str.induct)
  case (1 n)
  show ?case
  proof (cases "n < 16")
    case True
    then show ?thesis by (simp add: hex_str.simps [of n] hex_digit_printable)
  next
    case False
    with 1 show ?thesis by (simp add: hex_str.simps [of n] hex_digit_printable)
  qed
qed

lemma format_04x_printable: "list_all printable (format_04x n)"
  by (simp add: format_04x_def hex_str_printable list_all_replicate printable_def)

lemma dec_str_printable: "list_all printable (dec_str n)"
proof (induction n rule: dec_str.induct)
  case (1 n)
  show ?case
  proof (cases "n < 10")
    case True
    then show ?thesis by (simp add: dec_str.simps [of n] printable_def)
  next
    case False
    with 1 show ?thesis by (simp add: dec_str.simps [of n] printable_def)
  qed
qed

lemma int_repr_printable: "int_repr i = Inr s \<Longrightarrow> list_all printable s"
  by (auto simp: int_repr_def Let_def dec_str_printable printable_def split: if_splits)

lemma float_repr_printable: "list_all printable (float_repr neg m decpt)"
  by (simp add: float_repr_def Let_def of_ascii_def dec_str_printable list_all_take
      list_all_drop list_all_replicate printable_def)

lemma floatstr_printable: "list_all printable (floatstr f)"
  by (cases f rule: floatstr.cases) (simp_all add: float_repr_printable of_ascii_def printable_def)

lemma replace_match_printable: "list_all printable (replace_match c)"
  by (simp add: replace_match_def ESCAPE_DCT_def Let_def format_04x_printable printable_def)

lemma not_ESCAPE_ASCII_printable: "\<not> ESCAPE_ASCII c \<Longrightarrow> printable c"
  by (simp add: ESCAPE_ASCII_def printable_def)

lemma py_encode_basestring_ascii_printable: "list_all printable (py_encode_basestring_ascii s)"
proof -
  have "list_all printable (concat (map (\<lambda>c. if ESCAPE_ASCII c then replace_match c else [c]) s))"
    by (induction s) (simp_all add: replace_match_printable not_ESCAPE_ASCII_printable)
  moreover have "printable 0x22"
    by (simp add: printable_def)
  ultimately show ?thesis
    by (simp add: py_encode_basestring_ascii_def)
qed

lemma literal_printable:
  "list_all printable (of_ascii ''null'')"
  "list_all printable (of_ascii ''true'')"
  "list_all printable (of_ascii ''false'')"
  "list_all printable (of_ascii '', '')"
  "list_all printable (of_ascii '': '')"
  "printable 0x5B" "printable 0x5D" "printable 0x7B" "printable 0x7D"
  by (simp_all add: of_ascii_def printable_def)

lemma join_str_printable:
  "list_all printable sep \<Longrightarrow> list_all (list_all printable) ss \<Longrightarrow>
   list_all printable (join_str sep ss)"
  by (induction sep ss rule: join_str.induct) simp_all

lemma iterencode_printable:
  "iterencode v = Inr s \<Longrightarrow> list_all printable s"
  "iterencode_list xs = Inr ss \<Longrightarrow> list_all (list_all printable) ss"
  "iterencode_dict kvs = Inr ss \<Longrightarrow> list_all (list_all printable) ss"
proof (induction v and xs and kvs arbitrary: s and ss and ss
    rule: iterencode_iterencode_list_iterencode_dict.induct)
  case (7 xs)
  then show ?case
    by (auto simp: join_str_printable literal_printable split: sum.splits)
next
  case (8 xs)
  then show ?case
    by (auto simp: join_str_printable literal_printable split: sum.splits)
next
  case (9 kvs)
  then show ?case
    by (auto simp: join_str_printable literal_printable split: sum.splits)
next
  case (12 x xs)
  then show ?case by (auto split: sum.splits)
next
  case (14 k v kvs)
  then show ?case
    by (auto simp: py_encode_basestring_ascii_printable literal_printable split: sum.splits)
qed (auto simp: py_encode_basestring_ascii_printable literal_printable int_repr_printable
    floatstr_printable)

lemma json_dumps_printable: "json_dumps obj = Inr s \<Longrightarrow> list_all printable s"
  by (simp add: json_dumps_def iterencode_printable)

lemma printable_not_newline: "list_all printable s \<Longrightarrow> 0x0A \<notin> set s"
  by (auto simp: list_all_iff printable_def)


section \<open>The lines of standard output\<close>

lemma lines_of_line: "0x0A \<notin> set s \<Longrightarrow> lines_of (s @ 0x0A # rest) = s # lines_of rest"
  by (induction s) auto

lemma lines_of_concat:
  "list_all (\<lambda>s. 0x0A \<notin> set s) ss \<Longrightarrow> lines_of (concat (map (\<lambda>s. s @ [0x0A]) ss)) = ss"
  by (induction ss) (simp_all add: lines_of_line)

lemma serialized_printable: "list_all (list_all printable) (serialized t)"
  by (induction t) (auto simp: json_dumps_printable split: sum.splits)

lemma serialized_all:
  "list_all serializable t \<Longrightarrow>
   list_all2 (\<lambda>entry line. json_dumps entry = Inr line) t (serialized t)"
  by (induction t) (auto simp: serializable_def split: sum.splits)

section \<open>The loop and the two attempts\<close>

lemma print_entries_process:
  "snd (print_entries t p) =
     p\<lparr>stdout := stdout p @ concat (map (\<lambda>s. s @ [0x0A]) (serialized t))\<rparr>"
  by (induction t arbitrary: p) (auto simp: print_stdout_def split: sum.splits)

lemma print_entries_ok:
  "(fst (print_entries t p) = Inr ()) = list_all serializable t"
  by (induction t arbitrary: p) (auto simp: serializable_def split: sum.splits)

lemma get_transcript_result:
  "fst (get_transcript api v p) =
     (case api v languages_en of
        Inr t \<Rightarrow> Inr t
      | Inl e \<Rightarrow> (case api v languages_variants of Inr t \<Rightarrow> Inr t | Inl e2 \<Rightarrow> Inl e))"
  by (simp add: get_transcript_def api_get_transcript_def split: sum.splits)

lemma get_transcript_process:
  "snd (get_transcript api v p) =
     p\<lparr>requests := requests p @ (v, languages_en) #
         (case api v languages_en of Inr t \<Rightarrow> [] | Inl e \<Rightarrow> [(v, languages_variants)])\<rparr>"
  by (simp add: get_transcript_def api_get_transcript_def split: sum.splits)

text \<open>Rewrite rules that run the script on the examples.\<close>

lemma replicate_numeral: "replicate (numeral k) x = x # replicate (pred_numeral k) x"
  by (simp add: numeral_eq_Suc)

lemmas run_simps = json_dumps_def of_ascii_def py_encode_basestring_ascii_def
  ESCAPE_ASCII_def replace_match_def ESCAPE_DCT_def format_04x_def hex_str.simps hex_digit_def
  float_repr_def dec_str.simps int_repr_def Let_def replicate_numeral
  main_def get_transcript_def api_get_transcript_def print_stdout_def print_stderr_def
  start_def usage_def languages_en_def languages_variants_def prog_def video_def
  entry_hello_def entry_world_def no_en_def no_variant_def
  api_en_def api_variant_def api_none_def api_empty_def entry_snippet_def api_snippet_def
  api_empty_variant_def

section \<open>The outcomes of a run\<close>

lemma main_usage:
  "length argv \<noteq> 2 \<Longrightarrow>
   main api argv = (\<lparr>requests = [], stdout = [], stderr = usage @ [0x0A]\<rparr>, 1)"
  by (simp add: main_def print_stderr_def start_def)

lemma get_transcript_start:
  "get_transcript api v start =
     (fst (get_transcript api v start),
      \<lparr>requests = requests (snd (get_transcript api v start)), stdout = [], stderr = []\<rparr>)"
proof -
  have "snd (get_transcript api v start) =
      \<lparr>requests = requests (snd (get_transcript api v start)), stdout = [], stderr = []\<rparr>"
    by (simp add: get_transcript_process start_def)
  then show ?thesis
    by (metis prod.collapse)
qed

lemma print_entries_result:
  "fst (print_entries t p) = fst (print_entries t q)"
  by (induction t arbitrary: p q) (auto split: sum.splits)

lemma main_retrieval_failed:
  assumes "fst (get_transcript api v start) = Inl e"
  shows "main api [pr, v] =
     (\<lparr>requests = requests (snd (get_transcript api v start)), stdout = [],
       stderr = of_ascii ''Error: '' @ str_of e @ [0x0A]\<rparr>, 1)"
proof -
  have "main api [pr, v] =
      (case get_transcript api v start of
         (Inl e, p1) \<Rightarrow> (print_stderr (of_ascii ''Error: '' @ str_of e) p1, 1)
       | (Inr transcript, p1) \<Rightarrow>
           (case print_entries transcript p1 of
              (Inl e, p2) \<Rightarrow> (print_stderr (of_ascii ''Error: '' @ str_of e) p2, 1)
            | (Inr u, p2) \<Rightarrow> (p2, 0)))"
    by (simp add: main_def)
  also have "\<dots> = (print_stderr (of_ascii ''Error: '' @ str_of e)
      \<lparr>requests = requests (snd (get_transcript api v start)), stdout = [], stderr = []\<rparr>, 1)"
    by (subst get_transcript_start) (simp add: assms)
  finally show ?thesis
    by (simp add: print_stderr_def)
qed

lemma main_retrieved:
  assumes "fst (get_transcript api v start) = Inr t"
  shows "main api [pr, v] =
     (case fst (print_entries t start) of
        Inl e \<Rightarrow>
          (\<lparr>requests = requests (snd (get_transcript api v start)),
            stdout = concat (map (\<lambda>s. s @ [0x0A]) (serialized t)),
            stderr = of_ascii ''Error: '' @ str_of e @ [0x0A]\<rparr>, 1)
      | Inr u \<Rightarrow>
          (\<lparr>requests = requests (snd (get_transcript api v start)),
            stdout = concat (map (\<lambda>s. s @ [0x0A]) (serialized t)),
            stderr = []\<rparr>, 0))"
proof -
  let ?p1 = "\<lparr>requests = requests (snd (get_transcript api v start)), stdout = [], stderr = []\<rparr>"
  have "main api [pr, v] =
      (case get_transcript api v start of
         (Inl e, p1) \<Rightarrow> (print_stderr (of_ascii ''Error: '' @ str_of e) p1, 1)
       | (Inr transcript, p1) \<Rightarrow>
           (case print_entries transcript p1 of
              (Inl e, p2) \<Rightarrow> (print_stderr (of_ascii ''Error: '' @ str_of e) p2, 1)
            | (Inr u, p2) \<Rightarrow> (p2, 0)))"
    by (simp add: main_def)
  also have "\<dots> =
      (case print_entries t ?p1 of
         (Inl e, p2) \<Rightarrow> (print_stderr (of_ascii ''Error: '' @ str_of e) p2, 1)
       | (Inr u, p2) \<Rightarrow> (p2, 0))"
    by (subst get_transcript_start) (simp add: assms)
  finally have m: "main api [pr, v] =
      (case print_entries t ?p1 of
         (Inl e, p2) \<Rightarrow> (print_stderr (of_ascii ''Error: '' @ str_of e) p2, 1)
       | (Inr u, p2) \<Rightarrow> (p2, 0))" .
  have p2: "snd (print_entries t ?p1) =
      ?p1\<lparr>stdout := concat (map (\<lambda>s. s @ [0x0A]) (serialized t))\<rparr>"
    using print_entries_process [of t ?p1] by simp
  have r2: "fst (print_entries t ?p1) = fst (print_entries t start)"
    by (rule print_entries_result)
  have pe: "print_entries t ?p1 =
      (fst (print_entries t start),
       ?p1\<lparr>stdout := concat (map (\<lambda>s. s @ [0x0A]) (serialized t))\<rparr>)"
    using p2 r2 by (metis prod.collapse)
  show ?thesis
    unfolding m pe by (cases "fst (print_entries t start)") (simp_all add: print_stderr_def)
qed

lemma main_requests:
  "requests (fst (main api [pr, v])) = requests (snd (get_transcript api v start))"
proof (cases "fst (get_transcript api v start)")
  case (Inl e)
  then show ?thesis by (simp add: main_retrieval_failed)
next
  case (Inr t)
  then show ?thesis
    by (cases "fst (print_entries t start)") (simp_all add: main_retrieved)
qed

lemma length_two: "length argv = 2 \<Longrightarrow> \<exists>pr v. argv = [pr, v]"
  by (cases argv; cases "tl argv") auto

section \<open>The two attempts of \<^verbatim>\<open>get_transcript\<close>\<close>

text \<open>
  Claim C1. For every video identifier, \<^verbatim>\<open>get_transcript\<close> first asks the provider for
  the language \<^verbatim>\<open>en\<close>, and this is its only request when it is answered. When the first
  request raises, it asks for \<^verbatim>\<open>en-US\<close> and \<^verbatim>\<open>en-GB\<close>, in this order; when the second
  request raises as well, the exception of the first request is the one raised to the
  caller, and the script prints \<^verbatim>\<open>Error: \<close> and the message of that first exception on
  standard error and exits with status 1.
\<close>

theorem first_error_is_raised:
  "(\<exists>more. requests (snd (get_transcript api v p)) =
       requests p @ (v, [of_ascii ''en'']) # more) \<and>
   (\<forall>t. api v [of_ascii ''en''] = Inr t \<longrightarrow>
      get_transcript api v p = (Inr t, p\<lparr>requests := requests p @ [(v, [of_ascii ''en''])]\<rparr>)) \<and>
   (\<forall>e. api v [of_ascii ''en''] = Inl e \<longrightarrow>
      requests (snd (get_transcript api v p)) =
        requests p @ [(v, [of_ascii ''en'']), (v, [of_ascii ''en-US'', of_ascii ''en-GB''])] \<and>
      (\<forall>e2. api v [of_ascii ''en-US'', of_ascii ''en-GB''] = Inl e2 \<longrightarrow>
         fst (get_transcript api v p) = Inl e \<and>
         stderr (fst (main api [pr, v])) = of_ascii ''Error: '' @ str_of e @ [0x0A] \<and>
         snd (main api [pr, v]) = 1))"
proof -
  have en: "languages_en = [of_ascii ''en'']"
    and va: "languages_variants = [of_ascii ''en-US'', of_ascii ''en-GB'']"
    by (simp_all add: languages_en_def languages_variants_def)
  have 1: "\<exists>more. requests (snd (get_transcript api v p)) =
       requests p @ (v, [of_ascii ''en'']) # more"
    by (simp add: get_transcript_process en)
  have 2: "get_transcript api v p = (Inr t, p\<lparr>requests := requests p @ [(v, [of_ascii ''en''])]\<rparr>)"
    if "api v [of_ascii ''en''] = Inr t" for t
    using that by (simp add: get_transcript_def api_get_transcript_def en)
  have 3: "requests (snd (get_transcript api v p)) =
        requests p @ [(v, [of_ascii ''en'']), (v, [of_ascii ''en-US'', of_ascii ''en-GB''])]"
    if "api v [of_ascii ''en''] = Inl e" for e
    using that by (simp add: get_transcript_process en [symmetric] va [symmetric])
  have 4: "fst (get_transcript api v p) = Inl e \<and>
         stderr (fst (main api [pr, v])) = of_ascii ''Error: '' @ str_of e @ [0x0A] \<and>
         snd (main api [pr, v]) = 1"
    if "api v [of_ascii ''en''] = Inl e" "api v [of_ascii ''en-US'', of_ascii ''en-GB''] = Inl e2"
    for e e2
  proof -
    have r: "fst (get_transcript api v q) = Inl e" for q
      using that by (simp add: get_transcript_result en [symmetric] va [symmetric])
    show ?thesis
      using r [of p] main_retrieval_failed [OF r [of start], of pr] by simp
  qed
  show ?thesis
    using 1 2 3 4 by blast
qed

text \<open>A video without any English transcript: two requests, and the error of the first
  one on standard error. A video with an \<^verbatim>\<open>en\<close> transcript: one request.\<close>

theorem first_error_is_raised_witness:
  "requests (snd (get_transcript api_none video start)) =
     [(video, [of_ascii ''en'']), (video, [of_ascii ''en-US'', of_ascii ''en-GB''])] \<and>
   fst (get_transcript api_none video start) = Inl no_en \<and>
   stderr (fst (main api_none [prog, video])) = of_ascii ''Error: no transcript for en'' @ [0x0A] \<and>
   snd (main api_none [prog, video]) = 1 \<and>
   get_transcript api_en video start =
     (Inr [entry_hello, entry_world], \<lparr>requests = [(video, [of_ascii ''en''])], stdout = [], stderr = []\<rparr>)"
proof -
  have a: "api_none video [of_ascii ''en''] = Inl no_en"
    and b: "api_none video [of_ascii ''en-US'', of_ascii ''en-GB''] = Inl no_variant"
    and c: "api_en video [of_ascii ''en''] = Inr [entry_hello, entry_world]"
    by (simp_all add: api_none_def api_en_def languages_en_def of_ascii_def)
  have s: "str_of no_en = of_ascii ''no transcript for en''"
    by (simp add: no_en_def)
  show ?thesis
    using first_error_is_raised [of api_none video start prog]
      first_error_is_raised [of api_en video start prog] a b c s
    by (simp add: start_def of_ascii_def)
qed

section \<open>The arguments of the command line\<close>

text \<open>
  Claim C2. With no argument or with two or more after the program name (a
  \<^verbatim>\<open>sys.argv\<close> whose length is not 2), the script prints the usage message on standard
  error, exits with status 1, writes nothing on standard output and sends no request.
  A request is sent exactly when there is one argument.
\<close>

theorem usage_unless_one_argument:
  "(length argv \<noteq> 2 \<longrightarrow>
      main api argv =
        (\<lparr>requests = [], stdout = [],
          stderr = of_ascii ''Usage: python get_transcript.py <video_id>'' @ [0x0A]\<rparr>, 1)) \<and>
   (requests (fst (main api argv)) \<noteq> []) = (length argv = 2)"
proof (cases "length argv = 2")
  case True
  then obtain pr v where "argv = [pr, v]"
    using length_two by blast
  then show ?thesis
    by (simp add: main_requests get_transcript_process)
next
  case False
  then show ?thesis
    by (simp add: main_usage usage_def)
qed

text \<open>The usage message with no argument and with two, and a request with one.\<close>

theorem usage_unless_one_argument_witness:
  "main api_en [prog] =
     (\<lparr>requests = [], stdout = [],
       stderr = of_ascii ''Usage: python get_transcript.py <video_id>'' @ [0x0A]\<rparr>, 1) \<and>
   main api_en [prog, video, video] =
     (\<lparr>requests = [], stdout = [],
       stderr = of_ascii ''Usage: python get_transcript.py <video_id>'' @ [0x0A]\<rparr>, 1) \<and>
   requests (fst (main api_en [prog, video])) \<noteq> []"
  using usage_unless_one_argument [of "[prog]" api_en]
    usage_unless_one_argument [of "[prog, video, video]" api_en]
    usage_unless_one_argument [of "[prog, video]" api_en]
  by simp

section \<open>Failures and exit statuses\<close>

text \<open>
  Claim C4. On every run where both attempts of the retrieval raise, the script prints
  \<^verbatim>\<open>Error: \<close> and the message of the retrieval error (the one of the first attempt) on
  standard error, exits with status 1 and writes nothing on standard output.
\<close>

theorem retrieval_failure_reported:
  assumes "api v [of_ascii ''en''] = Inl e"
    and "api v [of_ascii ''en-US'', of_ascii ''en-GB''] = Inl e2"
  shows "main api [pr, v] =
     (\<lparr>requests = [(v, [of_ascii ''en'']), (v, [of_ascii ''en-US'', of_ascii ''en-GB''])],
       stdout = [],
       stderr = of_ascii ''Error: '' @ str_of e @ [0x0A]\<rparr>, 1)"
proof -
  have a: "api v languages_en = Inl e" and b: "api v languages_variants = Inl e2"
    using assms by (simp_all add: languages_en_def languages_variants_def)
  have "fst (get_transcript api v start) = Inl e"
    by (simp add: get_transcript_result a b)
  then have "main api [pr, v] =
     (\<lparr>requests = requests (snd (get_transcript api v start)), stdout = [],
       stderr = of_ascii ''Error: '' @ str_of e @ [0x0A]\<rparr>, 1)"
    by (rule main_retrieval_failed)
  moreover have "requests (snd (get_transcript api v start)) =
      [(v, [of_ascii ''en'']), (v, [of_ascii ''en-US'', of_ascii ''en-GB''])]"
    by (simp add: get_transcript_process a start_def)
       (simp add: languages_en_def languages_variants_def)
  ultimately show ?thesis
    by simp
qed

text \<open>The video without any English transcript.\<close>

theorem retrieval_failure_reported_witness:
  "main api_none [prog, video] =
     (\<lparr>requests = [(video, [of_ascii ''en'']), (video, [of_ascii ''en-US'', of_ascii ''en-GB''])],
       stdout = [],
       stderr = of_ascii ''Error: no transcript for en'' @ [0x0A]\<rparr>, 1)"
proof -
  have a: "api_none video [of_ascii ''en''] = Inl no_en"
    and b: "api_none video [of_ascii ''en-US'', of_ascii ''en-GB''] = Inl no_variant"
    by (simp_all add: api_none_def languages_en_def of_ascii_def)
  show ?thesis
    using retrieval_failure_reported [of api_none video no_en no_variant prog] a b
    by (simp add: no_en_def of_ascii_def)
qed

text \<open>
  With a provider that raises instances of \<^verbatim>\<open>Exception\<close> only and streams that work,
  \<open>main_base\<close> ends with the status of \<open>main\<close>.
\<close>

lemma get_transcript_base_provider_of:
  "get_transcript_base (provider_of api) v = Inr (fst (get_transcript api v p))"
  by (simp add: get_transcript_base_def provider_of_def get_transcript_result split: sum.splits)

lemma print_entries_base_plain:
  "print_entries_base json_dumps (\<lambda>k. None) k t = fst (print_entries t p)"
  by (induction t arbitrary: k p) (auto split: sum.splits)

lemma main_base_main:
  "main_base (provider_of api) json_dumps streams_ok argv = Exited (snd (main api argv))"
proof (cases "length argv = 2")
  case False
  then show ?thesis
    by (simp add: main_base_def main_usage at_exit_def streams_ok_def)
next
  case True
  then obtain pr v where argv: "argv = [pr, v]"
    using length_two by blast
  show ?thesis
  proof (cases "fst (get_transcript api v start)")
    case (Inl e)
    then show ?thesis
      using get_transcript_base_provider_of [of api v start]
      by (simp add: argv main_base_def main_retrieval_failed at_exit_def streams_ok_def)
  next
    case (Inr t)
    then show ?thesis
      using get_transcript_base_provider_of [of api v start]
        print_entries_base_plain [of 0 t start]
      by (cases "fst (print_entries t start)")
         (simp_all add: argv main_base_def main_retrieved at_exit_def streams_ok_def)
  qed
qed




text \<open>
  Claim C9. When the provider returns an empty transcript for the video identifier, on
  the first attempt or on the second, the script writes nothing on standard output and
  nothing on standard error, and exits with status 0.
\<close>

theorem empty_transcript_prints_nothing:
  assumes "api v [of_ascii ''en''] = Inr [] \<or>
    (\<exists>e. api v [of_ascii ''en''] = Inl e) \<and> api v [of_ascii ''en-US'', of_ascii ''en-GB''] = Inr []"
  shows "stdout (fst (main api [pr, v])) = [] \<and> stderr (fst (main api [pr, v])) = [] \<and>
    snd (main api [pr, v]) = 0"
proof -
  have "fst (get_transcript api v start) = Inr []"
    using assms
    by (auto simp: get_transcript_result languages_en_def languages_variants_def)
  then show ?thesis
    by (simp add: main_retrieved)
qed

text \<open>An empty transcript at the first attempt, and one at the second.\<close>

theorem empty_transcript_prints_nothing_witness:
  "main api_empty [prog, video] =
     (\<lparr>requests = [(video, [of_ascii ''en''])], stdout = [], stderr = []\<rparr>, 0) \<and>
   main api_empty_variant [prog, video] =
     (\<lparr>requests = [(video, [of_ascii ''en'']), (video, [of_ascii ''en-US'', of_ascii ''en-GB''])],
       stdout = [], stderr = []\<rparr>, 0)"
proof -
  have a: "api_empty video [of_ascii ''en''] = Inr []"
    by (simp add: api_empty_def)
  have b: "(\<exists>e. api_empty_variant video [of_ascii ''en''] = Inl e) \<and>
      api_empty_variant video [of_ascii ''en-US'', of_ascii ''en-GB''] = Inr []"
    by (simp add: api_empty_variant_def languages_en_def of_ascii_def)
  have r: "requests (fst (main api_empty [prog, video])) = [(video, [of_ascii ''en''])]"
    by (simp add: main_requests get_transcript_process api_empty_def start_def languages_en_def)
  have r': "requests (fst (main api_empty_variant [prog, video])) =
      [(video, [of_ascii ''en'']), (video, [of_ascii ''en-US'', of_ascii ''en-GB''])]"
    by (simp add: main_requests get_transcript_process api_empty_variant_def start_def
        languages_en_def languages_variants_def no_en_def)
  have 1: "main api_empty [prog, video] =
     (\<lparr>requests = [(video, [of_ascii ''en''])], stdout = [], stderr = []\<rparr>, 0)"
    using empty_transcript_prints_nothing [of api_empty video prog] a r
    by (cases "main api_empty [prog, video]"; cases "fst (main api_empty [prog, video])") simp
  have 2: "main api_empty_variant [prog, video] =
     (\<lparr>requests = [(video, [of_ascii ''en'']), (video, [of_ascii ''en-US'', of_ascii ''en-GB''])],
       stdout = [], stderr = []\<rparr>, 0)"
    using empty_transcript_prints_nothing [of api_empty_variant video prog] b r'
    by (cases "main api_empty_variant [prog, video]";
        cases "fst (main api_empty_variant [prog, video])") simp
  show ?thesis
    using 1 2 by (rule conjI)
qed

section \<open>What a run prints for a transcript\<close>

lemma stdout_lines: "lines_of (concat (map (\<lambda>s. s @ [0x0A]) (serialized t))) = serialized t"
proof -
  have "list_all (\<lambda>s. 0x0A \<notin> set s) (serialized t)"
    using serialized_printable [of t] by (induction "serialized t" arbitrary: t)
      (auto simp: printable_not_newline list_all_iff)
  then show ?thesis
    by (rule lines_of_concat)
qed

lemma serialized_prefix:
  "list_all2 (\<lambda>entry line. json_dumps entry = Inr line) (take (length (serialized t)) t)
     (serialized t)"
  by (induction t) (auto split: sum.splits)

lemma serialized_length: "length (serialized t) \<le> length t"
  by (induction t) (auto split: sum.splits)

lemma serialized_stops:
  "length (serialized t) < length t \<Longrightarrow> \<not> serializable (t ! length (serialized t))"
  by (induction t) (auto simp: serializable_def split: sum.splits)

lemma serialized_full: "list_all serializable t \<Longrightarrow> length (serialized t) = length t"
  by (induction t) (auto simp: serializable_def split: sum.splits)

lemma main_stdout:
  "fst (get_transcript api v start) = Inr t \<Longrightarrow>
   stdout (fst (main api [pr, v])) = concat (map (\<lambda>s. s @ [0x0A]) (serialized t))"
  by (cases "fst (print_entries t start)") (simp_all add: main_retrieved)

lemma main_status:
  "fst (get_transcript api v start) = Inr t \<Longrightarrow>
   snd (main api [pr, v]) = (if list_all serializable t then 0 else 1)"
  using print_entries_ok [of t start]
  by (cases "fst (print_entries t start)") (simp_all add: main_retrieved)

lemma main_stderr:
  "fst (get_transcript api v start) = Inr t \<Longrightarrow>
   stderr (fst (main api [pr, v])) =
     (case fst (print_entries t start) of
        Inl e \<Rightarrow> of_ascii ''Error: '' @ str_of e @ [0x0A] | Inr u \<Rightarrow> [])"
  by (cases "fst (print_entries t start)") (simp_all add: main_retrieved)

lemma iterencode_dict_members:
  "iterencode_dict items = Inr members \<Longrightarrow> list_all2 object_member items members"
proof (induction items arbitrary: members)
  case Nil
  then show ?case by simp
next
  case (Cons item items)
  obtain k val where item: "item = (k, val)"
    by (cases item)
  from Cons.prems obtain ks s rest where ks: "key_str k = Inr ks"
    and s: "iterencode val = Inr s" and rest: "iterencode_dict items = Inr rest"
    and members: "members = (py_encode_basestring_ascii ks @ of_ascii '': '' @ s) # rest"
    by (auto simp: item split: sum.splits)
  have "object_member item (py_encode_basestring_ascii ks @ of_ascii '': '' @ s)"
    by (simp add: object_member_def item ks s json_dumps_def)
  moreover have "list_all2 object_member items rest"
    using rest by (rule Cons.IH)
  ultimately show ?case
    by (simp add: members)
qed

lemma json_dumps_dict:
  "json_dumps (PyDict items) = Inr line \<Longrightarrow>
   \<exists>members. line = [0x7B] @ join_str (of_ascii '', '') members @ [0x7D] \<and>
     list_all2 object_member items members"
  by (auto simp: json_dumps_def iterencode_dict_members split: sum.splits)

lemma plain_string_quoted:
  "list_all (\<lambda>c. \<not> ESCAPE_ASCII c) s \<Longrightarrow> py_encode_basestring_ascii s = [0x22] @ s @ [0x22]"
proof -
  assume "list_all (\<lambda>c. \<not> ESCAPE_ASCII c) s"
  then have "concat (map (\<lambda>c. if ESCAPE_ASCII c then replace_match c else [c]) s) = s"
    by (induction s) simp_all
  then show ?thesis
    by (simp add: py_encode_basestring_ascii_def)
qed

lemma plain_key_member:
  "list_all (\<lambda>c. \<not> ESCAPE_ASCII c) k \<Longrightarrow> object_member (PyStr k, val) member \<Longrightarrow>
   \<exists>s. json_dumps val = Inr s \<and> member = [0x22] @ k @ [0x22] @ of_ascii '': '' @ s"
  by (auto simp: object_member_def plain_string_quoted split: sum.splits)

section \<open>Standard output of a run that succeeds\<close>

text \<open>
  Claim C3. On every run that ends with status 0, the retrieval has returned a
  transcript, and standard output is made of one line per entry, in the order of the
  transcript: each line is the text \<^verbatim>\<open>json.dumps\<close> returns for its entry and holds no
  newline of its own. The line of an entry that is a dict is a JSON object, with one
  member per item of the dict, in the order of the items; the member of an item is its key
  as a JSON string, \<^verbatim>\<open>: \<close> and the JSON text of its value. A key that needs no escape (such
  as \<^verbatim>\<open>text\<close>, \<^verbatim>\<open>start\<close> and \<^verbatim>\<open>duration\<close>) stands as it is between the double quotes.
\<close>

theorem stdout_one_json_object_per_entry:
  assumes "main api [pr, v] = (p, 0)"
  shows "(\<exists>t. fst (get_transcript api v start) = Inr t \<and>
      stdout p = concat (map (\<lambda>line. line @ [0x0A]) (lines_of (stdout p))) \<and>
      list_all2
        (\<lambda>entry line. json_dumps entry = Inr line \<and> 0x0A \<notin> set line \<and>
           (\<forall>items. entry = PyDict items \<longrightarrow>
              (\<exists>members. line = [0x7B] @ join_str (of_ascii '', '') members @ [0x7D] \<and>
                 list_all2 object_member items members)))
        t (lines_of (stdout p))) \<and>
    (\<forall>k val member.
       list_all (\<lambda>c. \<not> ESCAPE_ASCII c) k \<longrightarrow> object_member (PyStr k, val) member \<longrightarrow>
       (\<exists>s. json_dumps val = Inr s \<and> member = [0x22] @ k @ [0x22] @ of_ascii '': '' @ s))"
proof -
  have "\<exists>t. fst (get_transcript api v start) = Inr t \<and>
      stdout p = concat (map (\<lambda>line. line @ [0x0A]) (lines_of (stdout p))) \<and>
      list_all2
        (\<lambda>entry line. json_dumps entry = Inr line \<and> 0x0A \<notin> set line \<and>
           (\<forall>items. entry = PyDict items \<longrightarrow>
              (\<exists>members. line = [0x7B] @ join_str (of_ascii '', '') members @ [0x7D] \<and>
                 list_all2 object_member items members)))
        t (lines_of (stdout p))"
  proof (cases "fst (get_transcript api v start)")
    case (Inl e)
    then show ?thesis
      using assms by (simp add: main_retrieval_failed)
  next
    case (Inr t)
    have "snd (main api [pr, v]) = 0"
      using assms by simp
    then have all: "list_all serializable t"
      using main_status [OF Inr, of pr] by (simp split: if_splits)
    have out: "stdout p = concat (map (\<lambda>s. s @ [0x0A]) (serialized t))"
      using main_stdout [OF Inr, of pr] assms by simp
    then have ls: "lines_of (stdout p) = serialized t"
      by (simp add: stdout_lines)
    have "list_all2 (\<lambda>entry line. json_dumps entry = Inr line) t (serialized t)"
      using all by (rule serialized_all)
    then have "list_all2
        (\<lambda>entry line. json_dumps entry = Inr line \<and> 0x0A \<notin> set line \<and>
           (\<forall>items. entry = PyDict items \<longrightarrow>
              (\<exists>members. line = [0x7B] @ join_str (of_ascii '', '') members @ [0x7D] \<and>
                 list_all2 object_member items members)))
        t (serialized t)"
    proof (rule list_all2_mono)
      fix entry line
      assume d: "json_dumps entry = Inr line"
      have "0x0A \<notin> set line"
        using d by (simp add: json_dumps_printable printable_not_newline)
      moreover have "\<exists>members. line = [0x7B] @ join_str (of_ascii '', '') members @ [0x7D] \<and>
          list_all2 object_member items members" if "entry = PyDict items" for items
        using d that json_dumps_dict [of items line] by simp
      ultimately show "json_dumps entry = Inr line \<and> 0x0A \<notin> set line \<and>
           (\<forall>items. entry = PyDict items \<longrightarrow>
              (\<exists>members. line = [0x7B] @ join_str (of_ascii '', '') members @ [0x7D] \<and>
                 list_all2 object_member items members))"
        using d by blast
    qed
    then show ?thesis
      using Inr out ls by simp
  qed
  then show ?thesis
    using plain_key_member by blast
qed

text \<open>The run on the video with an \<^verbatim>\<open>en\<close> transcript, with what it writes, and the
  member of the key \<^verbatim>\<open>text\<close>.\<close>

theorem stdout_one_json_object_per_entry_witness:
  "main api_en [prog, video] =
     (\<lparr>requests = [(video, [of_ascii ''en''])],
       stdout =
         of_ascii ''{\"text\": \"H'' @ [0x5C] @
         of_ascii ''u00e9llo\", \"start\": 0.0, \"duration\": 1.5}'' @ [0x0A] @
         of_ascii ''{\"text\": \"world\", \"start\": 1.5, \"duration\": 2.25}'' @ [0x0A],
       stderr = []\<rparr>, 0) \<and>
   list_all2 (\<lambda>entry line. json_dumps entry = Inr line) [entry_hello, entry_world]
     [of_ascii ''{\"text\": \"H'' @ [0x5C] @
        of_ascii ''u00e9llo\", \"start\": 0.0, \"duration\": 1.5}'',
      of_ascii ''{\"text\": \"world\", \"start\": 1.5, \"duration\": 2.25}''] \<and>
   (\<exists>s. json_dumps (PyStr (of_ascii ''world'')) = Inr s \<and>
      of_ascii ''\"text\": \"world\"'' = [0x22] @ of_ascii ''text'' @ [0x22] @ of_ascii '': '' @ s)"
proof -
  let ?p = "\<lparr>requests = [(video, [of_ascii ''en''])],
       stdout =
         of_ascii ''{\"text\": \"H'' @ [0x5C] @
         of_ascii ''u00e9llo\", \"start\": 0.0, \"duration\": 1.5}'' @ [0x0A] @
         of_ascii ''{\"text\": \"world\", \"start\": 1.5, \"duration\": 2.25}'' @ [0x0A],
       stderr = []\<rparr>"
  have run: "main api_en [prog, video] = (?p, 0)"
    by (simp add: run_simps)
  have t: "fst (get_transcript api_en video start) = Inr [entry_hello, entry_world]"
    by (simp add: get_transcript_result api_en_def)
  have ls: "lines_of (stdout ?p) =
     [of_ascii ''{\"text\": \"H'' @ [0x5C] @
        of_ascii ''u00e9llo\", \"start\": 0.0, \"duration\": 1.5}'',
      of_ascii ''{\"text\": \"world\", \"start\": 1.5, \"duration\": 2.25}'']"
    by (simp add: of_ascii_def)
  note j = stdout_one_json_object_per_entry [OF run]
  from j t
  have "list_all2 (\<lambda>entry line. json_dumps entry = Inr line) [entry_hello, entry_world]
      (lines_of (stdout ?p))"
    by (auto elim: list_all2_mono)
  moreover have k: "list_all (\<lambda>c. \<not> ESCAPE_ASCII c) (of_ascii ''text'')"
    by (simp add: of_ascii_def ESCAPE_ASCII_def)
  have m: "object_member (PyStr (of_ascii ''text''), PyStr (of_ascii ''world''))
      (of_ascii ''\"text\": \"world\"'')"
    by (simp add: object_member_def run_simps)
  from j k m have "\<exists>s. json_dumps (PyStr (of_ascii ''world'')) = Inr s \<and>
      of_ascii ''\"text\": \"world\"'' = [0x22] @ of_ascii ''text'' @ [0x22] @ of_ascii '': '' @ s"
    by blast
  ultimately show ?thesis
    using run ls by simp
qed

section \<open>The second attempt against the first\<close>

text \<open>
  Claim C6. When the request for \<^verbatim>\<open>en\<close> raises and the request for \<^verbatim>\<open>en-US\<close> and
  \<^verbatim>\<open>en-GB\<close> returns a transcript, the retrieval returns this transcript after two requests,
  and standard output, standard error and the exit status are the ones of a run whose
  request for \<^verbatim>\<open>en\<close> returns the same transcript. When \<^verbatim>\<open>json.dumps\<close> accepts every entry,
  as it does for the entries the provider builds, the status is 0 and standard output has
  one JSON line per entry, in the order of the transcript.
\<close>

theorem fallback_output_as_primary:
  assumes "api v [of_ascii ''en''] = Inl e"
    and "api v [of_ascii ''en-US'', of_ascii ''en-GB''] = Inr t"
    and "api' v [of_ascii ''en''] = Inr t"
  shows "fst (get_transcript api v start) = Inr t \<and>
    requests (fst (main api [pr, v])) =
      [(v, [of_ascii ''en'']), (v, [of_ascii ''en-US'', of_ascii ''en-GB''])] \<and>
    stdout (fst (main api [pr, v])) = stdout (fst (main api' [pr, v])) \<and>
    stderr (fst (main api [pr, v])) = stderr (fst (main api' [pr, v])) \<and>
    snd (main api [pr, v]) = snd (main api' [pr, v]) \<and>
    (list_all serializable t \<longrightarrow>
       snd (main api [pr, v]) = 0 \<and>
       list_all2 (\<lambda>entry line. json_dumps entry = Inr line) t
         (lines_of (stdout (fst (main api [pr, v])))))"
proof -
  have a: "api v languages_en = Inl e" and b: "api v languages_variants = Inr t"
    and c: "api' v languages_en = Inr t"
    using assms by (simp_all add: languages_en_def languages_variants_def)
  have g: "fst (get_transcript api v start) = Inr t"
    by (simp add: get_transcript_result a b)
  have g': "fst (get_transcript api' v start) = Inr t"
    by (simp add: get_transcript_result c)
  have r: "requests (fst (main api [pr, v])) =
      [(v, [of_ascii ''en'']), (v, [of_ascii ''en-US'', of_ascii ''en-GB''])]"
    by (simp add: main_requests get_transcript_process a start_def)
       (simp add: languages_en_def languages_variants_def)
  have l: "list_all2 (\<lambda>entry line. json_dumps entry = Inr line) t
      (lines_of (stdout (fst (main api [pr, v]))))" if "list_all serializable t"
    using that by (simp add: main_stdout [OF g] stdout_lines serialized_all)
  show ?thesis
    using g r l
    by (simp add: main_stdout [OF g] main_stdout [OF g'] main_stderr [OF g] main_stderr [OF g']
        main_status [OF g] main_status [OF g'])
qed

text \<open>The video with a transcript in a variant only, against the one with an \<^verbatim>\<open>en\<close>
  transcript.\<close>

theorem fallback_output_as_primary_witness:
  "fst (get_transcript api_variant video start) = Inr [entry_hello, entry_world] \<and>
   requests (fst (main api_variant [prog, video])) =
     [(video, [of_ascii ''en'']), (video, [of_ascii ''en-US'', of_ascii ''en-GB''])] \<and>
   stdout (fst (main api_variant [prog, video])) = stdout (fst (main api_en [prog, video])) \<and>
   snd (main api_variant [prog, video]) = 0"
proof -
  have a: "api_variant video [of_ascii ''en''] = Inl no_en"
    and b: "api_variant video [of_ascii ''en-US'', of_ascii ''en-GB''] =
      Inr [entry_hello, entry_world]"
    and c: "api_en video [of_ascii ''en''] = Inr [entry_hello, entry_world]"
    by (simp_all add: api_variant_def api_en_def languages_en_def of_ascii_def)
  have d: "list_all serializable [entry_hello, entry_world]"
    by (simp add: serializable_def run_simps)
  show ?thesis
    using fallback_output_as_primary
      [of api_variant video no_en "[entry_hello, entry_world]" api_en prog] a b c d
    by simp
qed

section \<open>The entries are read, never changed\<close>

text \<open>
  Claim C7. The script only reads the entries: they are values here, and the loop has
  no write to them to model. For every transcript the retrieval returns, the lines of
  standard output are the JSON texts of the first \<open>n\<close> entries, in the order of the
  transcript, none left out, repeated or moved; \<open>n\<close> is the number of entries unless
  \<^verbatim>\<open>json.dumps\<close> refuses the entry at position \<open>n\<close>, where the loop ends. When it accepts
  every entry, all of them are printed and the status is 0. The loop changes nothing but
  standard output: the requests and standard error are as before it, and the final process
  keeps no entry.
\<close>

theorem entries_printed_in_turn:
  assumes "fst (get_transcript api v start) = Inr t"
  shows "\<exists>n. n \<le> length t \<and>
      list_all2 (\<lambda>entry line. json_dumps entry = Inr line) (take n t)
        (lines_of (stdout (fst (main api [pr, v])))) \<and>
      (n < length t \<longrightarrow> \<not> serializable (t ! n)) \<and>
      (list_all serializable t \<longrightarrow> n = length t \<and> snd (main api [pr, v]) = 0) \<and>
      requests (fst (main api [pr, v])) = requests (snd (get_transcript api v start)) \<and>
      requests (snd (print_entries t p)) = requests p \<and>
      stderr (snd (print_entries t p)) = stderr p"
proof -
  have "lines_of (stdout (fst (main api [pr, v]))) = serialized t"
    by (simp add: main_stdout [OF assms] stdout_lines)
  then show ?thesis
    using serialized_length [of t] serialized_prefix [of t] serialized_stops [of t]
      serialized_full [of t] main_status [OF assms, of pr]
    by (intro exI [of _ "length (serialized t)"])
       (simp add: main_requests print_entries_process)
qed


text \<open>Both entries of the \<^verbatim>\<open>en\<close> transcript are printed, in order. With an entry that
  \<^verbatim>\<open>json.dumps\<close> refuses in second place, the first entry is printed, the loop ends at
  position 1 and the run ends with the message of the \<^verbatim>\<open>TypeError\<close>.\<close>

theorem entries_printed_in_turn_witness:
  "list_all2 (\<lambda>entry line. json_dumps entry = Inr line) [entry_hello, entry_world]
     (lines_of (stdout (fst (main api_en [prog, video])))) \<and>
   snd (main api_en [prog, video]) = 0 \<and>
   main api_snippet [prog, video] =
     (\<lparr>requests = [(video, [of_ascii ''en''])],
       stdout =
         of_ascii ''{\"text\": \"H'' @ [0x5C] @
         of_ascii ''u00e9llo\", \"start\": 0.0, \"duration\": 1.5}'' @ [0x0A],
       stderr = of_ascii ''Error: Object of type Snippet is not JSON serializable'' @ [0x0A]\<rparr>,
      1) \<and>
   \<not> serializable ([entry_hello, entry_snippet, entry_world] ! 1)"
proof -
  have t: "fst (get_transcript api_en video start) = Inr [entry_hello, entry_world]"
    by (simp add: get_transcript_result api_en_def)
  have s: "list_all serializable [entry_hello, entry_world]"
    by (simp add: serializable_def run_simps)
  have run: "main api_snippet [prog, video] =
     (\<lparr>requests = [(video, [of_ascii ''en''])],
       stdout =
         of_ascii ''{\"text\": \"H'' @ [0x5C] @
         of_ascii ''u00e9llo\", \"start\": 0.0, \"duration\": 1.5}'' @ [0x0A],
       stderr = of_ascii ''Error: Object of type Snippet is not JSON serializable'' @ [0x0A]\<rparr>,
      1)"
    by (simp add: run_simps TypeError_def)
  have t': "fst (get_transcript api_snippet video start) =
      Inr [entry_hello, entry_snippet, entry_world]"
    by (simp add: get_transcript_result api_snippet_def)
  have l: "length (lines_of (stdout (fst (main api_snippet [prog, video])))) = 1"
    by (simp add: run of_ascii_def)
  from entries_printed_in_turn [OF t', of prog start]
  obtain n where n: "n \<le> length [entry_hello, entry_snippet, entry_world]"
    and p: "list_all2 (\<lambda>entry line. json_dumps entry = Inr line)
        (take n [entry_hello, entry_snippet, entry_world])
        (lines_of (stdout (fst (main api_snippet [prog, video]))))"
    and q: "n < length [entry_hello, entry_snippet, entry_world] \<longrightarrow>
        \<not> serializable ([entry_hello, entry_snippet, entry_world] ! n)"
    by blast
  from p have "length (take n [entry_hello, entry_snippet, entry_world]) =
      length (lines_of (stdout (fst (main api_snippet [prog, video]))))"
    by (rule list_all2_lengthD)
  with l have "length (take n [entry_hello, entry_snippet, entry_world]) = 1"
    by simp
  then have "n = 1"
    using n by simp
  then have u: "\<not> serializable ([entry_hello, entry_snippet, entry_world] ! 1)"
    using q by simp
  from entries_printed_in_turn [OF t, of prog start] s
  have "list_all2 (\<lambda>entry line. json_dumps entry = Inr line) [entry_hello, entry_world]
     (lines_of (stdout (fst (main api_en [prog, video])))) \<and>
   snd (main api_en [prog, video]) = 0"
    by auto
  then show ?thesis
    using run u by blast
qed

section \<open>The same transcript gives the same output\<close>

text \<open>
  Claim C8. Two runs for the same video identifier whose retrievals return the same
  transcript write the same text on standard output, whatever else the two providers
  answer and whichever attempt returned the transcript; standard error and the exit status
  are equal as well.
\<close>

theorem same_transcript_same_stdout:
  assumes "fst (get_transcript api1 v start) = Inr t"
    and "fst (get_transcript api2 v start) = Inr t"
  shows "stdout (fst (main api1 [pr1, v])) = stdout (fst (main api2 [pr2, v])) \<and>
    stderr (fst (main api1 [pr1, v])) = stderr (fst (main api2 [pr2, v])) \<and>
    snd (main api1 [pr1, v]) = snd (main api2 [pr2, v])"
  by (simp add: main_stdout [OF assms(1)] main_stdout [OF assms(2)]
      main_stderr [OF assms(1)] main_stderr [OF assms(2)]
      main_status [OF assms(1)] main_status [OF assms(2)])

text \<open>The same two entries, obtained at the first attempt in one run and at the second in
  the other, under two program names.\<close>

theorem same_transcript_same_stdout_witness:
  "stdout (fst (main api_en [prog, video])) = stdout (fst (main api_variant [[], video])) \<and>
   stdout (fst (main api_en [prog, video])) \<noteq> []"
proof -
  have a: "fst (get_transcript api_en video start) = Inr [entry_hello, entry_world]"
    and b: "fst (get_transcript api_variant video start) = Inr [entry_hello, entry_world]"
    by (simp_all add: get_transcript_result api_en_def api_variant_def languages_en_def
        languages_variants_def of_ascii_def)
  have "stdout (fst (main api_en [prog, video])) \<noteq> []"
    by (simp add: main_stdout [OF a] entry_hello_def json_dumps_def)
  then show ?thesis
    using same_transcript_same_stdout [OF a b, of prog "[]"] by simp
qed

section \<open>Characters outside ASCII\<close>
















end
